theory Spec2Isabelle
  imports Main "HOL-Library.Word" "HOL-Library.Sublist" "HOL-Library.Code_Target_Nat"
begin

section \<open>Observable behaviour of a run\<close>

text \<open>
  The two programs (\<^verbatim>\<open>example/c-vulnerable-app/main.c\<close> and
  \<^verbatim>\<open>example/cpp-vulnerable-app/main.cpp\<close>) act on their surroundings only through
  library calls. A run is modelled by the list of those calls, in program order, and by
  the way it stopped: normally, in undefined behaviour of the C standard, or through a
  C++ exception that nothing catches.
\<close>

datatype event =
    Stdout string   \<comment> \<open>bytes written to standard output by one output call\<close>
  | Shell string    \<comment> \<open>\<^verbatim>\<open>system(line)\<close>: the line is given to the command interpreter\<close>
  | Malloc nat      \<comment> \<open>\<^verbatim>\<open>malloc(n)\<close> or \<^verbatim>\<open>new char[n]\<close> that succeeded\<close>
  | Free            \<comment> \<open>\<^verbatim>\<open>free\<close> or \<^verbatim>\<open>delete[]\<close> of that block\<close>
  | Open_File string  \<comment> \<open>\<^verbatim>\<open>fopen(path, "r")\<close> or \<^verbatim>\<open>std::ifstream(path)\<close>\<close>
  | Close_File

datatype exn = Invalid_Argument | Out_Of_Range | Bad_Alloc

datatype fault =
    Buffer_Overflow nat nat  \<comment> \<open>capacity of the array, bytes written to it\<close>
  | Format_Without_Argument  \<comment> \<open>a conversion specification with no argument to read\<close>
  | Atoi_Unrepresentable     \<comment> \<open>\<^verbatim>\<open>atoi\<close> on a value outside \<^verbatim>\<open>int\<close>\<close>
  | Index_Out_Of_Bounds      \<comment> \<open>\<^verbatim>\<open>operator[]\<close> outside the vector\<close>
  | Uncaught exn             \<comment> \<open>an exception leaves \<^verbatim>\<open>main\<close>: \<^verbatim>\<open>std::terminate\<close>\<close>

type_synonym run = "event list \<times> fault option"

definition normal :: "event list \<Rightarrow> run" where
  "normal es = (es, None)"

definition faulty :: "fault \<Rightarrow> run" where
  "faulty f = ([], Some f)"

text \<open>Sequential composition: the second statement runs only when the first completed.\<close>

definition seq :: "run \<Rightarrow> run \<Rightarrow> run" where
  "seq a b = (case snd a of Some f \<Rightarrow> a | None \<Rightarrow> (fst a @ fst b, snd b))"

definition only_if :: "bool \<Rightarrow> run \<Rightarrow> run" where
  "only_if c a = (if c then a else normal [])"

section \<open>C and C++ library routines the programs call\<close>

definition NUL :: char where
  "NUL = CHR 0x00"

definition newline :: char where
  "newline = CHR 0x0A"

text \<open>
  A \<^verbatim>\<open>char *\<close> is modelled by the bytes it points at; the routines that take a C string
  read them up to the first NUL. \<^verbatim>\<open>std::string::c_str\<close> gives that view of a C++ string.
\<close>

definition c_str :: "string \<Rightarrow> string" where
  "c_str s = takeWhile (\<lambda>c. c \<noteq> NUL) s"

text \<open>\<^verbatim>\<open>std::cout << a << b << std::endl\<close>: the pieces, then a newline.\<close>

definition cout_line :: "string \<Rightarrow> run" where
  "cout_line s = normal [Stdout (s @ [newline])]"

text \<open>
  \<^verbatim>\<open>std::string::find(str)\<close>: the lowest position at which \<^verbatim>\<open>str\<close> occurs, \<^verbatim>\<open>npos\<close>
  (here \<open>None\<close>) when there is none. The empty string occurs at position 0.
\<close>

fun find_from :: "string \<Rightarrow> string \<Rightarrow> nat \<Rightarrow> nat option" where
  "find_from [] str pos = (if str = [] then Some pos else None)"
| "find_from (c # cs) str pos =
     (if prefix str (c # cs) then Some pos else find_from cs str (Suc pos))"

definition string_find :: "string \<Rightarrow> string \<Rightarrow> nat option" where
  "string_find s str = find_from s str 0"

section \<open>\<^verbatim>\<open>class VulnerableDatabase\<close> (main.cpp)\<close>

record VulnerableDatabase =
  users :: "string list"

text \<open>
  \<^verbatim>\<open>searchUsers\<close>: the SQL text is built and printed, never run; the loop walks \<^verbatim>\<open>users\<close>
  in order and appends each user in which \<^verbatim>\<open>query\<close> is found.
\<close>

fun search_loop :: "string list \<Rightarrow> string \<Rightarrow> string list \<Rightarrow> string list" where
  "search_loop [] query results = results"
| "search_loop (user # rest) query results =
     search_loop rest query
       (if string_find user query \<noteq> None then results @ [user] else results)"

definition sql_text :: "string \<Rightarrow> string" where
  "sql_text query = ''SELECT * FROM users WHERE name = '' @ [CHR 0x27] @ query @ [CHR 0x27]"

definition searchUsers :: "VulnerableDatabase \<Rightarrow> string \<Rightarrow> run \<times> string list" where
  "searchUsers db query =
     (let sql = sql_text query
      in (cout_line (''Executing SQL: '' @ sql), search_loop (users db) query []))"

definition addUser :: "VulnerableDatabase \<Rightarrow> string \<Rightarrow> VulnerableDatabase" where
  "addUser db username = db\<lparr>users := users db @ [username]\<rparr>"

text \<open>
  \<^verbatim>\<open>getUserData\<close> returns a \<^verbatim>\<open>std::shared_ptr<std::string>\<close>. The objects made by
  \<^verbatim>\<open>std::make_shared\<close> live in a store addressed by natural numbers; a new object takes the
  first address not in use. \<^verbatim>\<open>nullptr\<close> is \<open>None\<close>.
\<close>

type_synonym store = "string list"

definition lookup :: "store \<Rightarrow> nat \<Rightarrow> string option" where
  "lookup h p = (if p < length h then Some (h ! p) else None)"

definition make_shared :: "string \<Rightarrow> store \<Rightarrow> nat \<times> store" where
  "make_shared v h = (length h, h @ [v])"

text \<open>\<^verbatim>\<open>std::vector::operator[]\<close>: undefined outside the vector (\<open>None\<close>).\<close>

definition vector_at :: "'a list \<Rightarrow> nat \<Rightarrow> 'a option" where
  "vector_at xs n = (if n < length xs then Some (xs ! n) else None)"

text \<open>
  \<^verbatim>\<open>index\<close> is an \<^verbatim>\<open>int\<close>; \<^verbatim>\<open>index >= 0\<close> is a signed comparison, and in
  \<^verbatim>\<open>index < users.size()\<close> and \<^verbatim>\<open>users[index]\<close> it is converted to the 64-bit \<^verbatim>\<open>size_t\<close>.
\<close>

definition getUserData ::
  "VulnerableDatabase \<Rightarrow> 32 word \<Rightarrow> store \<Rightarrow> fault + (nat option \<times> store)" where
  "getUserData db index h =
     (if word_sle 0 index \<and> unat (scast index :: 64 word) < length (users db)
      then (case vector_at (users db) (unat (scast index :: 64 word)) of
              None \<Rightarrow> Inl Index_Out_Of_Bounds
            | Some user \<Rightarrow> (case make_shared user h of (p, h') \<Rightarrow> Inr (Some p, h')))
      else Inr (None, h))"

section \<open>The C program (main.c): globals and authentication\<close>

record globals =
  admin_password :: string
  debug_mode :: "32 word"
  global_buffer :: "nat option"
  shared_counter :: "32 word"

definition initial_globals :: globals where
  "initial_globals =
     \<lparr>admin_password = ''admin123'', debug_mode = 0, global_buffer = None,
      shared_counter = 0\<rparr>"

text \<open>
  \<^verbatim>\<open>strcmp\<close> walks both strings byte by byte and stops at the first pair that differs or
  at the terminator. The C standard fixes the sign of the result, that of the difference
  of the two bytes it stopped at (as \<^verbatim>\<open>unsigned char\<close>); the model returns that
  difference. The end of a list stands for the terminator.
\<close>

fun strcmp :: "string \<Rightarrow> string \<Rightarrow> int" where
  "strcmp [] [] = 0"
| "strcmp [] (y # ys) = - int (of_char y)"
| "strcmp (x # xs) [] = int (of_char x)"
| "strcmp (x # xs) (y # ys) =
     (if x = y then (if x = NUL then 0 else strcmp xs ys)
      else int (of_char x) - int (of_char y))"

definition authenticate_user :: "globals \<Rightarrow> string \<Rightarrow> string \<Rightarrow> int" where
  "authenticate_user g username password =
     (if strcmp username ''admin'' = 0 \<and> strcmp password (admin_password g) = 0
      then 1 else 0)"

section \<open>More library routines: formatted output, copies, numbers, files\<close>

text \<open>
  \<^verbatim>\<open>printf(format)\<close> called with the format alone. Ordinary bytes are written as they are;
  \<^verbatim>\<open>%%\<close> writes one \<^verbatim>\<open>%\<close>; every other conversion specification reads an argument
  that was not passed, which the C standard leaves undefined (\<open>None\<close>).
\<close>

fun printf_format :: "string \<Rightarrow> string option" where
  "printf_format [] = Some []"
| "printf_format [c] = (if c = CHR ''%'' then None else Some [c])"
| "printf_format (c # d # cs) =
     (if c = CHR ''%''
      then (if d = CHR ''%'' then map_option ((#) CHR ''%'') (printf_format cs) else None)
      else map_option ((#) c) (printf_format (d # cs)))"

definition printf :: "string \<Rightarrow> run" where
  "printf format =
     (case printf_format (c_str format) of
        None \<Rightarrow> faulty Format_Without_Argument
      | Some out \<Rightarrow> normal [Stdout out])"

text \<open>\<^verbatim>\<open>printf("pre%spost", s)\<close>: the argument is written as data.\<close>

definition printf_s :: "string \<Rightarrow> string \<Rightarrow> string \<Rightarrow> run" where
  "printf_s pre s post = normal [Stdout (pre @ c_str s @ post)]"

definition digit_char :: "nat \<Rightarrow> char" where
  "digit_char d = ''0123456789'' ! d"

fun show_nat :: "nat \<Rightarrow> string" where
  "show_nat n = (if n < 10 then [digit_char n] else show_nat (n div 10) @ [digit_char (n mod 10)])"

declare show_nat.simps [simp del]

text \<open>
  \<^verbatim>\<open>strcpy(dest, src)\<close> and \<^verbatim>\<open>sprintf(dest, "pre%s", s)\<close> into an array of
  \<open>capacity\<close> bytes: the string and its terminator are written whatever the capacity is;
  writing past the array is undefined. On success the result is the string \<open>dest\<close> holds.
\<close>

definition strcpy :: "nat \<Rightarrow> string \<Rightarrow> fault + string" where
  "strcpy capacity src =
     (let written = length (c_str src) + 1
      in if written \<le> capacity then Inr (c_str src)
         else Inl (Buffer_Overflow capacity written))"

definition sprintf_s :: "nat \<Rightarrow> string \<Rightarrow> string \<Rightarrow> fault + string" where
  "sprintf_s capacity pre s =
     (let out = pre @ c_str s; written = length out + 1
      in if written \<le> capacity then Inr out
         else Inl (Buffer_Overflow capacity written))"

text \<open>\<^verbatim>\<open>strncmp(a, b, n) == 0\<close>: the first \<open>n\<close> bytes of the two strings agree.\<close>

definition strncmp_eq :: "string \<Rightarrow> string \<Rightarrow> nat \<Rightarrow> bool" where
  "strncmp_eq a b n = (take n (c_str a) = take n (c_str b))"

definition isspace :: "char \<Rightarrow> bool" where
  "isspace c = (c \<in> set [CHR '' '', CHR 0x09, CHR 0x0A, CHR 0x0B, CHR 0x0C, CHR 0x0D])"

definition isdigit :: "char \<Rightarrow> bool" where
  "isdigit c = (48 \<le> (of_char c :: nat) \<and> (of_char c :: nat) \<le> 57)"

definition digit_val :: "char \<Rightarrow> nat" where
  "digit_val c = of_char c - 48"

text \<open>The value of the leading decimal digits, left to right.\<close>

fun decimal :: "nat \<Rightarrow> string \<Rightarrow> nat" where
  "decimal acc [] = acc"
| "decimal acc (c # cs) = (if isdigit c then decimal (10 * acc + digit_val c) cs else acc)"

definition strip_sign :: "string \<Rightarrow> bool \<times> string" where
  "strip_sign s =
     (case s of
        [] \<Rightarrow> (False, [])
      | c # cs \<Rightarrow>
          if c = CHR ''-'' then (True, cs)
          else if c = CHR ''+'' then (False, cs)
          else (False, s))"

text \<open>
  \<^verbatim>\<open>atoi\<close>: white space, an optional sign, decimal digits. It has no error return: a
  value that \<^verbatim>\<open>int\<close> cannot represent is undefined behaviour. The result is the 32-bit
  pattern; the program stores it in an \<^verbatim>\<open>unsigned int\<close>, which keeps the bits.
\<close>

definition atoi :: "string \<Rightarrow> fault + 32 word" where
  "atoi nptr =
     (case strip_sign (dropWhile isspace (c_str nptr)) of
        (negative, ds) \<Rightarrow>
          let v = int (decimal 0 ds); r = (if negative then - v else v)
          in if - (2 ^ 31) \<le> r \<and> r < 2 ^ 31 then Inr (word_of_int r)
             else Inl Atoi_Unrepresentable)"

text \<open>
  \<^verbatim>\<open>std::stoull(str)\<close> (base 10, through \<^verbatim>\<open>strtoull\<close>): \<^verbatim>\<open>std::invalid_argument\<close> when no
  digit can be read, \<^verbatim>\<open>std::out_of_range\<close> when the digits exceed
  \<^verbatim>\<open>unsigned long long\<close>; a leading minus sign negates the value in the unsigned type.
\<close>

definition stoull :: "string \<Rightarrow> exn + 64 word" where
  "stoull str =
     (case strip_sign (dropWhile isspace (c_str str)) of
        (negative, ds) \<Rightarrow>
          if \<not> (case ds of [] \<Rightarrow> False | c # _ \<Rightarrow> isdigit c) then Inl Invalid_Argument
          else let v = decimal 0 ds
               in if 2 ^ 64 \<le> v then Inl Out_Of_Range
                  else Inr (if negative then - of_nat v else of_nat v))"

text \<open>
  \<^verbatim>\<open>fgets(buffer, n + 1, file)\<close>: at most \<open>n\<close> bytes, up to and including the first
  newline; the result is the bytes read and the rest of the file.
\<close>

fun fgets :: "nat \<Rightarrow> string \<Rightarrow> string \<times> string" where
  "fgets n [] = ([], [])"
| "fgets n (c # cs) =
     (if n = 0 then ([], c # cs)
      else if c = newline then ([c], cs)
      else (case fgets (n - 1) cs of (line, rest) \<Rightarrow> (c # line, rest)))"

text \<open>
  The part of the command interpreter's grammar that the examples need: \<^verbatim>\<open>;\<close> separates
  the commands of a line, blanks separate the words of a command. Quoting and expansion
  are not modelled.
\<close>

fun split_on :: "char \<Rightarrow> string \<Rightarrow> string list" where
  "split_on sep [] = [[]]"
| "split_on sep (c # cs) =
     (if c = sep then [] # split_on sep cs
      else (case split_on sep cs of w # ws \<Rightarrow> (c # w) # ws | [] \<Rightarrow> [[c]]))"

definition sh_commands :: "string \<Rightarrow> string list list" where
  "sh_commands line =
     filter (\<lambda>words. words \<noteq> [])
       (map (\<lambda>command. filter (\<lambda>w. w \<noteq> []) (split_on CHR '' '' command))
          (split_on CHR '';'' line))"

section \<open>The C program (main.c): the functions reached from the input\<close>

text \<open>
  What the program cannot decide itself is a parameter: \<open>malloc_ok n\<close> says whether a
  request for \<open>n\<close> bytes succeeds, and \<open>fs path\<close> is the content of the file at
  \<open>path\<close> when it can be opened for reading.
\<close>

definition MAX_COMMAND_SIZE :: nat where
  "MAX_COMMAND_SIZE = 256"

definition sizeof_char :: "64 word" where
  "sizeof_char = 1"

definition unsafe_string_copy :: "string \<Rightarrow> run" where
  "unsafe_string_copy input =
     (case strcpy 100 input of
        Inl f \<Rightarrow> faulty f
      | Inr buffer \<Rightarrow> printf_s ''Copied: '' buffer [newline])"

definition log_message :: "string \<Rightarrow> run" where
  "log_message user_input =
     seq (printf ''Log: '') (seq (printf user_input) (printf [newline]))"

definition execute_system_command :: "string \<Rightarrow> run" where
  "execute_system_command command =
     (case sprintf_s MAX_COMMAND_SIZE ''echo '' command of
        Inl f \<Rightarrow> faulty f
      | Inr full_command \<Rightarrow> normal [Shell full_command])"

definition allocate_memory :: "(nat \<Rightarrow> bool) \<Rightarrow> 32 word \<Rightarrow> run" where
  "allocate_memory malloc_ok sz =
     (if 0 < sz
      then (let bytes = (ucast sz :: 64 word) * sizeof_char
            in if \<not> malloc_ok (unat bytes)
               then printf (''Memory allocation failed'' @ [newline])
               else seq (normal [Malloc (unat bytes)])
                      (seq (normal [Stdout (''Allocated '' @ show_nat (unat sz) @ '' bytes''
                                             @ [newline])])
                         (normal [Free])))
      else normal [])"

lemma fgets_rest_le: "length (snd (fgets n s)) \<le> length s"
proof (induction s arbitrary: n)
  case Nil
  show ?case by simp
next
  case (Cons c cs)
  from Cons [of "n - 1"] show ?case
    by (auto split: prod.splits)
qed

lemma fgets_shorter:
  "s \<noteq> [] \<Longrightarrow> 0 < n \<Longrightarrow> (line, rest) = fgets n s \<Longrightarrow> length rest < length s"
proof (cases s)
  case Nil
  then show "s \<noteq> [] \<Longrightarrow> ?thesis" by simp
next
  case (Cons c cs)
  assume n: "0 < n" and eq: "(line, rest) = fgets n s"
  have "length (snd (fgets (n - 1) cs)) \<le> length cs"
    by (rule fgets_rest_le)
  with n eq Cons show ?thesis
    by (auto split: if_splits prod.splits)
qed

text \<open>
  The loop of \<^verbatim>\<open>read_config_file\<close>: \<^verbatim>\<open>fgets\<close> into a 512-byte buffer until the end of
  the file, each piece printed after \<^verbatim>\<open>Config: \<close>.
\<close>

function read_loop :: "string \<Rightarrow> event list" where
  "read_loop content =
     (if content = [] then []
      else (case fgets 511 content of
              (buffer, rest) \<Rightarrow> Stdout (''Config: '' @ c_str buffer) # read_loop rest))"
  by pat_completeness auto
termination
  by (relation "measure length") (auto intro: fgets_shorter [where n = 511])

declare read_loop.simps [simp del]

definition read_config_file :: "(string \<Rightarrow> string option) \<Rightarrow> string \<Rightarrow> run" where
  "read_config_file fs filename =
     (case fs (c_str filename) of
        None \<Rightarrow> normal [Open_File (c_str filename)]
      | Some content \<Rightarrow> normal (Open_File (c_str filename) # read_loop content @ [Close_File]))"


text \<open>
  \<^verbatim>\<open>main\<close>, the line read from standard input, when \<^verbatim>\<open>fgets\<close> returned one: \<open>line\<close>
  is what it stored in \<^verbatim>\<open>input_buffer\<close>; the line is cut at the first newline, logged,
  copied, and tried against the three prefixes in turn.
\<close>

definition main_input :: "(nat \<Rightarrow> bool) \<Rightarrow> (string \<Rightarrow> string option) \<Rightarrow> string \<Rightarrow> run" where
  "main_input malloc_ok fs line =
     (let input_buffer = takeWhile (\<lambda>c. c \<noteq> newline) (c_str line)
      in seq (log_message input_buffer)
          (seq (unsafe_string_copy input_buffer)
            (seq (only_if (strncmp_eq input_buffer ''exec:'' 5)
                    (execute_system_command (drop 5 input_buffer)))
              (seq (only_if (strncmp_eq input_buffer ''alloc:'' 6)
                      (case atoi (drop 6 input_buffer) of
                         Inl f \<Rightarrow> faulty f
                       | Inr sz \<Rightarrow> allocate_memory malloc_ok sz))
                 (only_if (strncmp_eq input_buffer ''file:'' 5)
                    (read_config_file fs (drop 5 input_buffer)))))))"

section \<open>The C++ program (main.cpp): \<^verbatim>\<open>class WebServer\<close> and the input\<close>

record WebServer =
  admin_token :: string
  db :: VulnerableDatabase

definition new_WebServer :: WebServer where
  "new_WebServer = \<lparr>admin_token = ''admin_secret_123'', db = \<lparr>users = []\<rparr>\<rparr>"

definition executeSystemCommand :: "string \<Rightarrow> run" where
  "executeSystemCommand cmd =
     (let command = ''echo '' @ cmd in normal [Shell (c_str command)])"

definition readFile :: "(string \<Rightarrow> string option) \<Rightarrow> string \<Rightarrow> run \<times> string" where
  "readFile fs filename =
     (case fs (c_str filename) of
        Some content \<Rightarrow> (normal [Open_File (c_str filename), Close_File], content)
      | None \<Rightarrow> (normal [Open_File (c_str filename)], ''File not found''))"

definition processUserInput :: "string \<Rightarrow> run" where
  "processUserInput input =
     (case strcpy 256 input of
        Inl f \<Rightarrow> faulty f
      | Inr buffer \<Rightarrow> cout_line (''Processed: '' @ buffer))"

definition logMessage :: "string \<Rightarrow> run" where
  "logMessage message = seq (printf message) (printf [newline])"

definition authenticate :: "WebServer \<Rightarrow> string \<Rightarrow> bool" where
  "authenticate ws token = (token = admin_token ws)"

definition allocateBuffer :: "(nat \<Rightarrow> bool) \<Rightarrow> 64 word \<Rightarrow> run" where
  "allocateBuffer new_ok sz =
     (if 0 < sz
      then (let total_size = sz * sizeof_char * 2
            in if \<not> new_ok (unat total_size) then faulty (Uncaught Bad_Alloc)
               else seq (normal [Malloc (unat total_size)])
                      (seq (cout_line (''Allocated '' @ show_nat (unat total_size) @ '' bytes''))
                         (normal [Free])))
      else normal [])"

text \<open>
  \<^verbatim>\<open>main\<close>, the line read by \<^verbatim>\<open>std::getline\<close>. There is no \<^verbatim>\<open>try\<close> block: an exception
  of \<^verbatim>\<open>std::stoull\<close> or of \<^verbatim>\<open>new\<close> leaves \<^verbatim>\<open>main\<close>.
\<close>

definition cpp_main_input ::
  "(nat \<Rightarrow> bool) \<Rightarrow> (string \<Rightarrow> string option) \<Rightarrow> WebServer \<Rightarrow> string \<Rightarrow> run" where
  "cpp_main_input new_ok fs server user_input =
     seq (logMessage user_input)
       (seq (only_if (take 5 user_input = ''exec:'')
               (executeSystemCommand (drop 5 user_input)))
          (seq (only_if (take 5 user_input = ''file:'')
                  (case readFile fs (drop 5 user_input) of
                     (opened, content) \<Rightarrow> seq opened (cout_line (''File content: '' @ content))))
             (seq (only_if (take 6 user_input = ''alloc:'')
                     (case stoull (drop 6 user_input) of
                        Inl e \<Rightarrow> faulty (Uncaught e)
                      | Inr sz \<Rightarrow> allocateBuffer new_ok sz))
                (only_if (take 3 user_input = ''db:'')
                   (case searchUsers (db server) (drop 3 user_input) of
                      (printed, results) \<Rightarrow>
                        seq printed
                          (normal (map (\<lambda>result. Stdout (''Found user: '' @ result @ [newline]))
                                     results)))))))"

section \<open>Surroundings used in the examples\<close>

definition always_ok :: "nat \<Rightarrow> bool" where
  "always_ok n = True"

definition no_files :: "string \<Rightarrow> string option" where
  "no_files path = None"

definition passwd_only :: "string \<Rightarrow> string option" where
  "passwd_only path =
     (if path = ''../../etc/passwd'' then Some (''root:x:0:0:root:/root:/bin/sh'' @ [newline])
      else None)"

section \<open>Properties of the database\<close>

lemma find_from_None: "find_from s str pos = None \<longleftrightarrow> \<not> sublist str s"
  by (induction s arbitrary: pos) (simp_all add: sublist_Cons_right)

lemma string_find_None: "string_find s str = None \<longleftrightarrow> \<not> sublist str s"
  by (simp add: string_find_def find_from_None)

lemma search_loop_filter:
  "search_loop us query acc = acc @ filter (sublist query) us"
  by (induction us arbitrary: acc) (simp_all add: string_find_None)

text \<open>
  C8. For every query and every list of stored users, \<^verbatim>\<open>searchUsers\<close> returns exactly
  the stored users that contain the query as a substring, in stored order; the SQL text
  is only written to standard output (the run has no other event), so it has no effect
  on the result.
\<close>

theorem searchUsers_substring_filter:
  "snd (searchUsers vdb query) = filter (\<lambda>user. \<exists>ps ss. user = ps @ query @ ss) (users vdb)
   \<and> fst (searchUsers vdb query) =
       ([Stdout (''Executing SQL: '' @ sql_text query @ [newline])], None)"
proof -
  have "sublist query = (\<lambda>user. \<exists>ps ss. user = ps @ query @ ss)"
    by (rule ext) (simp add: sublist_def)
  then have "snd (searchUsers vdb query) =
      filter (\<lambda>user. \<exists>ps ss. user = ps @ query @ ss) (users vdb)"
    by (simp add: searchUsers_def search_loop_filter)
  moreover have "fst (searchUsers vdb query) =
      ([Stdout (''Executing SQL: '' @ sql_text query @ [newline])], None)"
    by (simp add: searchUsers_def cout_line_def normal_def)
  ultimately show ?thesis by simp
qed

text \<open>
  While \<^verbatim>\<open>index\<close> is not negative, its conversion to \<^verbatim>\<open>size_t\<close> keeps its value.
\<close>

lemma unat_scast_nonneg:
  fixes index :: "32 word"
  assumes "0 \<le> sint index"
  shows "unat (scast index :: 64 word) = nat (sint index)"
proof -
  have "sint index < 2 ^ 31"
    using sint_lt [of index] by simp
  then have "sint index < 2 ^ 64"
    by (rule less_le_trans) simp
  with assms have "sint index mod 2 ^ 64 = sint index"
    by simp
  moreover have "uint (scast index :: 64 word) = sint index mod 2 ^ LENGTH(64)"
    by (simp only: scast_eq uint_word_of_int)
  ultimately have "uint (scast index :: 64 word) = sint index"
    by simp
  then show ?thesis
    by (simp only: unat_eq_nat_uint)
qed

lemma getUserData_cases:
  "getUserData vdb index h =
     (if sint index < 0 \<or> int (length (users vdb)) \<le> sint index then Inr (None, h)
      else Inr (Some (length h), h @ [users vdb ! nat (sint index)]))"
proof (cases "0 \<le> sint index")
  case True
  then show ?thesis
    by (auto simp: getUserData_def word_sle_eq unat_scast_nonneg vector_at_def make_shared_def)
next
  case False
  then show ?thesis
    by (simp add: getUserData_def word_sle_eq)
qed

text \<open>
  C9. For every \<^verbatim>\<open>int\<close> index, \<^verbatim>\<open>getUserData\<close> returns \<^verbatim>\<open>nullptr\<close> (and leaves the store
  as it was) when the index is negative or not less than the number of users; otherwise
  it returns the address of a new object (an address the store did not hold) that holds
  a copy of the user at that index, every older object being unchanged. In no case does
  it read the vector outside its bounds.
\<close>

theorem getUserData_checked:
  "(sint index < 0 \<or> int (length (users vdb)) \<le> sint index \<longrightarrow>
      getUserData vdb index h = Inr (None, h))
   \<and> (0 \<le> sint index \<and> sint index < int (length (users vdb)) \<longrightarrow>
      (\<exists>p h'. getUserData vdb index h = Inr (Some p, h')
         \<and> lookup h p = None
         \<and> lookup h' p = Some (users vdb ! nat (sint index))
         \<and> (\<forall>q. q < length h \<longrightarrow> lookup h' q = lookup h q)))
   \<and> getUserData vdb index h \<noteq> Inl Index_Out_Of_Bounds"
proof (cases "0 \<le> sint index \<and> sint index < int (length (users vdb))")
  case True
  let ?h' = "h @ [users vdb ! nat (sint index)]"
  from True have r: "getUserData vdb index h = Inr (Some (length h), ?h')"
    by (simp add: getUserData_cases)
  have "lookup h (length h) = None"
    by (simp add: lookup_def)
  moreover have "lookup ?h' (length h) = Some (users vdb ! nat (sint index))"
    by (simp add: lookup_def)
  moreover have "\<forall>q. q < length h \<longrightarrow> lookup ?h' q = lookup h q"
    by (simp add: lookup_def nth_append)
  ultimately have "\<exists>p h'. getUserData vdb index h = Inr (Some p, h')
         \<and> lookup h p = None
         \<and> lookup h' p = Some (users vdb ! nat (sint index))
         \<and> (\<forall>q. q < length h \<longrightarrow> lookup h' q = lookup h q)"
    using r by blast
  with True r show ?thesis
    by simp
next
  case False
  then have "getUserData vdb index h = Inr (None, h)"
    by (simp add: getUserData_cases not_le not_less)
  with False show ?thesis
    by auto
qed

theorem getUserData_checked_witness:
  "getUserData \<lparr>users = [''alice'', ''bob'']\<rparr> 1 [''kept''] = Inr (Some 1, [''kept'', ''bob''])
   \<and> getUserData \<lparr>users = [''alice'', ''bob'']\<rparr> 2 [''kept''] = Inr (None, [''kept''])
   \<and> getUserData \<lparr>users = [''alice'', ''bob'']\<rparr> (- 1) [''kept''] = Inr (None, [''kept''])"
proof -
  let ?d = "\<lparr>users = [''alice'', ''bob'']\<rparr>"
  have a: "0 \<le> sint (1 :: 32 word) \<and> sint (1 :: 32 word) < int (length (users ?d))"
    by simp
  have b: "sint (2 :: 32 word) < 0 \<or> int (length (users ?d)) \<le> sint (2 :: 32 word)"
    by simp
  have c: "sint (- 1 :: 32 word) < 0 \<or> int (length (users ?d)) \<le> sint (- 1 :: 32 word)"
    by simp
  from a getUserData_checked [of 1 ?d "[''kept'']"]
  obtain p h' where ph: "getUserData ?d 1 [''kept''] = Inr (Some p, h')"
      and fresh: "lookup [''kept''] p = None"
      and copy: "lookup h' p = Some (users ?d ! nat (sint (1 :: 32 word)))"
    by blast
  have "getUserData ?d 1 [''kept''] = Inr (Some 1, [''kept'', ''bob''])"
    by (simp add: getUserData_cases)
  moreover from b getUserData_checked [of 2 ?d "[''kept'']"]
  have "getUserData ?d 2 [''kept''] = Inr (None, [''kept''])"
    by blast
  moreover from c getUserData_checked [of "- 1" ?d "[''kept'']"]
  have "getUserData ?d (- 1) [''kept''] = Inr (None, [''kept''])"
    by blast
  ultimately show ?thesis by simp
qed

section \<open>Properties of the authentication (main.c)\<close>

lemma of_char_NUL: "of_char c = (0::nat) \<longleftrightarrow> c = NUL"
proof -
  have "of_char NUL = (0::nat)" by (simp add: NUL_def)
  then show ?thesis by (metis of_char_eq_iff)
qed

lemma strcmp_zero: "strcmp a b = 0 \<longleftrightarrow> c_str a = c_str b"
  by (induction a b rule: strcmp.induct) (auto simp: c_str_def of_char_NUL)

lemma c_str_id: "NUL \<notin> set s \<Longrightarrow> c_str s = s"
  by (auto simp: c_str_def)

lemma c_str_admin: "c_str ''admin'' = ''admin''" "c_str ''admin123'' = ''admin123''"
  by (simp_all add: c_str_def NUL_def)

text \<open>
  C10. \<^verbatim>\<open>authenticate_user\<close> returns 1 exactly when the user name is the string
  \<^verbatim>\<open>admin\<close> and the password is the string \<^verbatim>\<open>admin123\<close>, the initial (and only)
  value of the global \<^verbatim>\<open>admin_password\<close>, and 0 for every other pair; the other globals
  have no influence. The arguments are C strings: they are compared up to their
  terminator (\<open>c_str\<close>).
\<close>

theorem authenticate_user_exact:
  "authenticate_user
      (initial_globals\<lparr>debug_mode := d, global_buffer := b, shared_counter := n\<rparr>)
      username password =
   (if c_str username = ''admin'' \<and> c_str password = ''admin123'' then 1 else 0)"
proof -
  let ?g = "initial_globals\<lparr>debug_mode := d, global_buffer := b, shared_counter := n\<rparr>"
  have secret: "admin_password ?g = ''admin123''"
    by (simp add: initial_globals_def)
  have "strcmp username ''admin'' = 0 \<longleftrightarrow> c_str username = ''admin''"
    by (simp add: strcmp_zero c_str_admin)
  moreover have "strcmp password (admin_password ?g) = 0 \<longleftrightarrow> c_str password = ''admin123''"
    unfolding secret by (simp add: strcmp_zero c_str_admin)
  ultimately show ?thesis
    by (simp add: authenticate_user_def)
qed

theorem authenticate_user_exact_witness:
  "authenticate_user
      (initial_globals\<lparr>debug_mode := 1, global_buffer := None, shared_counter := 7\<rparr>)
      ''admin'' ''admin123'' = 1
   \<and> authenticate_user
      (initial_globals\<lparr>debug_mode := 0, global_buffer := None, shared_counter := 0\<rparr>)
      ''admin'' ''wrongpass'' = 0"
  using authenticate_user_exact
      [where d = 1 and b = None and n = 7 and username = "''admin''" and password = "''admin123''"]
    authenticate_user_exact
      [where d = 0 and b = None and n = 0 and username = "''admin''" and password = "''wrongpass''"]
  by (simp add: c_str_def NUL_def)

section \<open>Properties of the output and copy routines\<close>

lemma c_str_Cons: "c_str (c # cs) = (if c = NUL then [] else c # c_str cs)"
  by (simp add: c_str_def)

lemma printf_format_plain: "CHR ''%'' \<notin> set s \<Longrightarrow> printf_format s = Some s"
  by (induction s rule: printf_format.induct) auto

text \<open>Every conversion specification that \<^verbatim>\<open>printf\<close> accepts shortens the output.\<close>

lemma printf_format_length:
  "printf_format s = Some t \<Longrightarrow>
     length t \<le> length s \<and> (CHR ''%'' \<in> set s \<longrightarrow> length t < length s)"
  by (induction s arbitrary: t rule: printf_format.induct) (auto split: if_splits)

lemma printf_format_literal: "printf_format s = Some s \<longleftrightarrow> CHR ''%'' \<notin> set s"
  using printf_format_length [of s s] printf_format_plain [of s] by auto

lemma printf_literal:
  "printf s = ([Stdout (c_str s)], None) \<longleftrightarrow> CHR ''%'' \<notin> set (c_str s)"
proof (cases "printf_format (c_str s)")
  case None
  then have "CHR ''%'' \<in> set (c_str s)"
    using printf_format_plain [of "c_str s"] by auto
  with None show ?thesis
    by (simp add: printf_def faulty_def)
next
  case (Some out)
  then have "out = c_str s \<longleftrightarrow> CHR ''%'' \<notin> set (c_str s)"
    using printf_format_literal [of "c_str s"] by auto
  with Some show ?thesis
    by (simp add: printf_def normal_def)
qed

lemma printf_plain:
  "CHR ''%'' \<notin> set (c_str s) \<Longrightarrow> printf s = ([Stdout (c_str s)], None)"
  by (simp add: printf_literal)

lemma printf_const:
  "printf ''Log: '' = normal [Stdout ''Log: '']"
  "printf [newline] = normal [Stdout [newline]]"
  "printf ''Processing argument: '' = normal [Stdout ''Processing argument: '']"
  by (simp_all add: printf_def c_str_def NUL_def newline_def)

lemma logMessage_plain:
  "CHR ''%'' \<notin> set (c_str s) \<Longrightarrow> logMessage s = ([Stdout (c_str s), Stdout [newline]], None)"
  by (simp add: logMessage_def printf_plain printf_const seq_def normal_def)

lemma log_message_plain:
  "CHR ''%'' \<notin> set (c_str s) \<Longrightarrow>
     log_message s = ([Stdout ''Log: '', Stdout (c_str s), Stdout [newline]], None)"
  by (simp add: log_message_def printf_plain printf_const seq_def normal_def)

text \<open>
  C6 as stated fails: the payload \<^verbatim>\<open>100%%\<close> is written as \<^verbatim>\<open>100%\<close>, and for the
  payload \<^verbatim>\<open>%s\<close> the output routine reads an argument that does not exist.
\<close>

theorem log_message_format_counterexample:
  "log_message ''100%%'' = ([Stdout ''Log: '', Stdout ''100%'', Stdout [newline]], None)
   \<and> log_message ''%s'' = ([Stdout ''Log: ''], Some Format_Without_Argument)
   \<and> logMessage ''100%%'' = ([Stdout ''100%'', Stdout [newline]], None)"
  by (simp add: log_message_def logMessage_def printf_def c_str_def NUL_def newline_def
      seq_def normal_def faulty_def)

text \<open>
  C6, amended. \<^verbatim>\<open>log_message\<close> (C) and \<^verbatim>\<open>logMessage\<close> (C++) pass the input to
  \<^verbatim>\<open>printf\<close> as the format string. The bytes written for the payload are the payload
  itself exactly when it contains no \<^verbatim>\<open>%\<close>; with a \<^verbatim>\<open>%\<close> the output differs from the
  payload or the call is undefined.
\<close>

theorem log_message_literal_iff:
  "(log_message user_input =
      ([Stdout ''Log: '', Stdout (c_str user_input), Stdout [newline]], None)
      \<longleftrightarrow> CHR ''%'' \<notin> set (c_str user_input))
   \<and> (logMessage message = ([Stdout (c_str message), Stdout [newline]], None)
      \<longleftrightarrow> CHR ''%'' \<notin> set (c_str message))"
proof -
  have "log_message user_input =
      ([Stdout ''Log: '', Stdout (c_str user_input), Stdout [newline]], None)
      \<longleftrightarrow> printf user_input = ([Stdout (c_str user_input)], None)"
    by (cases "printf user_input")
      (auto simp: log_message_def printf_const seq_def normal_def split: option.splits)
  moreover have "logMessage message = ([Stdout (c_str message), Stdout [newline]], None)
      \<longleftrightarrow> printf message = ([Stdout (c_str message)], None)"
    by (cases "printf message")
      (auto simp: logMessage_def printf_const seq_def normal_def split: option.splits)
  ultimately show ?thesis by (simp add: printf_literal)
qed

theorem log_message_literal_iff_witness:
  "log_message ''user logged in'' =
      ([Stdout ''Log: '', Stdout ''user logged in'', Stdout [newline]], None)
   \<and> logMessage ''100%'' \<noteq> ([Stdout ''100%'', Stdout [newline]], None)"
  using log_message_literal_iff [of "''user logged in''" "''100%''"]
  by (simp add: c_str_def NUL_def)

lemma unsafe_string_copy_cases:
  "unsafe_string_copy input =
     (if length (c_str input) < 100
      then ([Stdout (''Copied: '' @ c_str input @ [newline])], None)
      else ([], Some (Buffer_Overflow 100 (length (c_str input) + 1))))"
  by (auto simp: unsafe_string_copy_def strcpy_def Let_def printf_s_def normal_def faulty_def
      c_str_def)




section \<open>Properties of the dispatch on the input line\<close>

lemma execute_system_command_cases:
  "execute_system_command command =
     (if length (c_str command) \<le> 250 then ([Shell (''echo '' @ c_str command)], None)
      else ([], Some (Buffer_Overflow 256 (length (c_str command) + 6))))"
  by (simp add: execute_system_command_def sprintf_s_def MAX_COMMAND_SIZE_def Let_def
      normal_def faulty_def)

lemma executeSystemCommand_line:
  "executeSystemCommand cmd = ([Shell (''echo '' @ c_str cmd)], None)"
  by (simp add: executeSystemCommand_def c_str_Cons NUL_def normal_def)

text \<open>The C++ program on a line \<open>exec:payload\<close> that passes the logging.\<close>

lemma cpp_main_input_exec:
  assumes "CHR ''%'' \<notin> set (c_str payload)"
  shows "cpp_main_input new_ok fs server (''exec:'' @ payload) =
     ([Stdout (''exec:'' @ c_str payload), Stdout [newline], Shell (''echo '' @ c_str payload)],
      None)"
proof -
  have c: "c_str (''exec:'' @ payload) = ''exec:'' @ c_str payload"
    by (simp add: c_str_Cons NUL_def)
  with assms have "CHR ''%'' \<notin> set (c_str (''exec:'' @ payload))"
    by simp
  then have "logMessage (''exec:'' @ payload) =
      ([Stdout (''exec:'' @ c_str payload), Stdout [newline]], None)"
    unfolding c [symmetric] by (rule logMessage_plain)
  then show ?thesis
    by (simp add: cpp_main_input_def executeSystemCommand_line only_if_def seq_def normal_def)
qed

text \<open>The C program on a line \<open>exec:payload\<close> that passes the logging and the copy.\<close>

lemma main_input_exec:
  assumes "CHR ''%'' \<notin> set payload" "NUL \<notin> set payload" "newline \<notin> set payload"
    and "length payload < 95"
  shows "main_input malloc_ok fs (''exec:'' @ payload) =
     ([Stdout ''Log: '', Stdout (''exec:'' @ payload), Stdout [newline],
       Stdout (''Copied: exec:'' @ payload @ [newline]), Shell (''echo '' @ payload)], None)"
proof -
  define b where "b = ''exec:'' @ payload"
  have c: "c_str b = b"
    using assms by (simp add: b_def c_str_Cons c_str_id NUL_def)
  have t: "takeWhile (\<lambda>c. c \<noteq> newline) b = b"
    using assms by (auto simp: b_def newline_def)
  have d: "drop 5 b = payload"
    by (simp add: b_def)
  have l: "log_message b = ([Stdout ''Log: '', Stdout b, Stdout [newline]], None)"
    using assms log_message_plain [of b] by (simp add: c) (simp add: b_def)
  have u: "unsafe_string_copy b = ([Stdout (''Copied: '' @ b @ [newline])], None)"
    using assms by (simp add: unsafe_string_copy_cases c) (simp add: b_def)
  have e: "execute_system_command payload = ([Shell (''echo '' @ payload)], None)"
    using assms by (simp add: execute_system_command_cases c_str_id)
  have p: "strncmp_eq b ''exec:'' 5" "\<not> strncmp_eq b ''alloc:'' 6" "\<not> strncmp_eq b ''file:'' 5"
    by (simp_all add: strncmp_eq_def b_def c_str_Cons NUL_def)
  have "main_input malloc_ok fs b =
     ([Stdout ''Log: '', Stdout b, Stdout [newline],
       Stdout (''Copied: '' @ b @ [newline]), Shell (''echo '' @ payload)], None)"
    unfolding main_input_def Let_def c t d
    by (simp add: l u e p only_if_def seq_def normal_def)
  then show ?thesis
    by (simp add: b_def)
qed

lemma isdigit_plain:
  assumes "isdigit c"
  shows "c \<noteq> NUL" "c \<noteq> CHR ''%''" "c \<noteq> newline" "\<not> isspace c" "c \<noteq> CHR ''-''" "c \<noteq> CHR ''+''"
  using assms by (auto simp: isdigit_def NUL_def newline_def isspace_def)

lemma digits_plain:
  assumes "\<forall>c\<in>set ds. isdigit c"
  shows "c_str ds = ds" "CHR ''%'' \<notin> set ds" "newline \<notin> set ds" "NUL \<notin> set ds"
  using assms isdigit_plain by (auto simp: c_str_def)

text \<open>The C program on a line \<open>alloc:payload\<close> that passes the logging and the copy.\<close>

lemma main_input_alloc:
  assumes "CHR ''%'' \<notin> set payload" "NUL \<notin> set payload" "newline \<notin> set payload"
    and "length payload < 94"
  shows "main_input malloc_ok fs (''alloc:'' @ payload) =
     seq ([Stdout ''Log: '', Stdout (''alloc:'' @ payload), Stdout [newline],
           Stdout (''Copied: alloc:'' @ payload @ [newline])], None)
       (case atoi payload of Inl f \<Rightarrow> faulty f | Inr sz \<Rightarrow> allocate_memory malloc_ok sz)"
proof -
  define b where "b = ''alloc:'' @ payload"
  define r where "r = (case atoi payload of Inl f \<Rightarrow> faulty f | Inr sz \<Rightarrow> allocate_memory malloc_ok sz)"
  have c: "c_str b = b"
    using assms by (simp add: b_def c_str_Cons c_str_id NUL_def)
  have t: "takeWhile (\<lambda>c. c \<noteq> newline) b = b"
    using assms by (auto simp: b_def newline_def)
  have d: "drop 6 b = payload"
    by (simp add: b_def)
  have "CHR ''%'' \<notin> set (c_str b)"
    unfolding c using assms by (simp add: b_def)
  then have l: "log_message b = ([Stdout ''Log: '', Stdout b, Stdout [newline]], None)"
    using log_message_plain [of b] by (simp add: c)
  have u: "unsafe_string_copy b = ([Stdout (''Copied: '' @ b @ [newline])], None)"
    using assms by (simp add: unsafe_string_copy_cases c) (simp add: b_def)
  have p: "\<not> strncmp_eq b ''exec:'' 5" "strncmp_eq b ''alloc:'' 6" "\<not> strncmp_eq b ''file:'' 5"
    by (simp_all add: strncmp_eq_def b_def c_str_Cons NUL_def)
  have "main_input malloc_ok fs b =
     seq ([Stdout ''Log: '', Stdout b, Stdout [newline],
           Stdout (''Copied: '' @ b @ [newline])], None) r"
    unfolding main_input_def Let_def c t d r_def [symmetric]
    by (cases r) (simp add: l u p only_if_def seq_def normal_def split: option.splits)
  then show ?thesis by (simp add: b_def r_def)
qed

lemma main_input_file:
  assumes "CHR ''%'' \<notin> set payload" "NUL \<notin> set payload" "newline \<notin> set payload"
    and "length payload < 95"
  shows "main_input malloc_ok fs (''file:'' @ payload) =
     seq ([Stdout ''Log: '', Stdout (''file:'' @ payload), Stdout [newline],
           Stdout (''Copied: file:'' @ payload @ [newline])], None)
       (read_config_file fs payload)"
proof -
  define b where "b = ''file:'' @ payload"
  define r where "r = read_config_file fs payload"
  have c: "c_str b = b"
    using assms by (simp add: b_def c_str_Cons c_str_id NUL_def)
  have t: "takeWhile (\<lambda>c. c \<noteq> newline) b = b"
    using assms by (auto simp: b_def newline_def)
  have d: "drop 5 b = payload"
    by (simp add: b_def)
  have "CHR ''%'' \<notin> set (c_str b)"
    unfolding c using assms by (simp add: b_def)
  then have l: "log_message b = ([Stdout ''Log: '', Stdout b, Stdout [newline]], None)"
    using log_message_plain [of b] by (simp add: c)
  have u: "unsafe_string_copy b = ([Stdout (''Copied: '' @ b @ [newline])], None)"
    using assms by (simp add: unsafe_string_copy_cases c) (simp add: b_def)
  have p: "\<not> strncmp_eq b ''exec:'' 5" "\<not> strncmp_eq b ''alloc:'' 6" "strncmp_eq b ''file:'' 5"
    by (simp_all add: strncmp_eq_def b_def c_str_Cons NUL_def)
  have "main_input malloc_ok fs b =
     seq ([Stdout ''Log: '', Stdout b, Stdout [newline],
           Stdout (''Copied: '' @ b @ [newline])], None) r"
    unfolding main_input_def Let_def c t d r_def [symmetric]
    by (cases r) (simp add: l u p only_if_def seq_def normal_def split: option.splits)
  then show ?thesis by (simp add: b_def r_def)
qed

lemma cpp_main_input_alloc:
  assumes "CHR ''%'' \<notin> set (c_str payload)"
  shows "cpp_main_input new_ok fs server (''alloc:'' @ payload) =
     seq ([Stdout (''alloc:'' @ c_str payload), Stdout [newline]], None)
       (case stoull payload of Inl e \<Rightarrow> faulty (Uncaught e) | Inr sz \<Rightarrow> allocateBuffer new_ok sz)"
proof -
  define b where "b = ''alloc:'' @ payload"
  define r where "r = (case stoull payload of Inl e \<Rightarrow> faulty (Uncaught e) | Inr sz \<Rightarrow> allocateBuffer new_ok sz)"
  have c: "c_str b = ''alloc:'' @ c_str payload"
    by (simp add: b_def c_str_Cons NUL_def)
  with assms have "CHR ''%'' \<notin> set (c_str b)"
    by simp
  then have l: "logMessage b = ([Stdout (c_str b), Stdout [newline]], None)"
    by (rule logMessage_plain)
  have p: "take 5 b \<noteq> ''exec:''" "take 5 b \<noteq> ''file:''" "take 6 b = ''alloc:''"
    "take 3 b \<noteq> ''db:''"
    by (simp_all add: b_def)
  have d: "drop 6 b = payload"
    by (simp add: b_def)
  have "cpp_main_input new_ok fs server b = seq ([Stdout (c_str b), Stdout [newline]], None) r"
    unfolding cpp_main_input_def d r_def [symmetric]
    by (cases r) (simp add: l p only_if_def seq_def normal_def split: option.splits)
  then show ?thesis by (simp add: b_def r_def c_str_Cons NUL_def)
qed

lemma cpp_main_input_file:
  assumes "CHR ''%'' \<notin> set (c_str payload)"
  shows "cpp_main_input new_ok fs server (''file:'' @ payload) =
     seq ([Stdout (''file:'' @ c_str payload), Stdout [newline]], None)
       (case readFile fs payload of
          (opened, content) \<Rightarrow> seq opened (cout_line (''File content: '' @ content)))"
proof -
  define b where "b = ''file:'' @ payload"
  define r where "r = (case readFile fs payload of
          (opened, content) \<Rightarrow> seq opened (cout_line (''File content: '' @ content)))"
  have c: "c_str b = ''file:'' @ c_str payload"
    by (simp add: b_def c_str_Cons NUL_def)
  with assms have "CHR ''%'' \<notin> set (c_str b)"
    by simp
  then have l: "logMessage b = ([Stdout (c_str b), Stdout [newline]], None)"
    by (rule logMessage_plain)
  have p: "take 5 b \<noteq> ''exec:''" "take 5 b = ''file:''" "take 6 b \<noteq> ''alloc:''"
    "take 3 b \<noteq> ''db:''"
    by (simp_all add: b_def)
  have d: "drop 5 b = payload"
    by (simp add: b_def)
  have "cpp_main_input new_ok fs server b = seq ([Stdout (c_str b), Stdout [newline]], None) r"
    unfolding cpp_main_input_def d r_def [symmetric]
    by (cases r) (simp add: l p only_if_def seq_def normal_def split: option.splits)
  then show ?thesis by (simp add: b_def r_def c_str_Cons NUL_def)
qed

text \<open>
  C1 as stated fails: for the input \<^verbatim>\<open>exec:hello; rm -rf /\<close> both programs build the line
  \<^verbatim>\<open>echo hello; rm -rf /\<close> and give it to the command interpreter, which reads two
  commands in it: \<^verbatim>\<open>echo\<close> with the one argument \<^verbatim>\<open>hello\<close>, then \<^verbatim>\<open>rm -rf /\<close>.
\<close>

theorem exec_shell_counterexample:
  "main_input always_ok no_files ''exec:hello; rm -rf /'' =
     ([Stdout ''Log: '', Stdout ''exec:hello; rm -rf /'', Stdout [newline],
       Stdout (''Copied: exec:hello; rm -rf /'' @ [newline]), Shell ''echo hello; rm -rf /''],
      None)
   \<and> cpp_main_input always_ok no_files new_WebServer ''exec:hello; rm -rf /'' =
     ([Stdout ''exec:hello; rm -rf /'', Stdout [newline], Shell ''echo hello; rm -rf /''], None)
   \<and> sh_commands ''echo hello; rm -rf /'' = [[''echo'', ''hello''], [''rm'', ''-rf'', ''/'']]"
proof -
  have "main_input always_ok no_files (''exec:'' @ ''hello; rm -rf /'') =
     ([Stdout ''Log: '', Stdout (''exec:'' @ ''hello; rm -rf /''), Stdout [newline],
       Stdout (''Copied: exec:'' @ ''hello; rm -rf /'' @ [newline]),
       Shell (''echo '' @ ''hello; rm -rf /'')], None)"
    by (rule main_input_exec) (simp_all add: NUL_def newline_def)
  moreover have "c_str ''hello; rm -rf /'' = ''hello; rm -rf /''"
    by (simp add: c_str_def NUL_def)
  then have "cpp_main_input always_ok no_files new_WebServer (''exec:'' @ ''hello; rm -rf /'') =
     ([Stdout (''exec:'' @ ''hello; rm -rf /''), Stdout [newline],
       Shell (''echo '' @ ''hello; rm -rf /'')], None)"
    using cpp_main_input_exec [of "''hello; rm -rf /''" always_ok no_files new_WebServer]
    by simp
  moreover have
    "sh_commands ''echo hello; rm -rf /'' = [[''echo'', ''hello''], [''rm'', ''-rf'', ''/'']]"
    by (simp add: sh_commands_def)
  ultimately show ?thesis by simp
qed

text \<open>
  C1, amended. Executing a command appends the payload to \<^verbatim>\<open>echo \<close> and gives the line to
  the command interpreter through \<^verbatim>\<open>system\<close>; the payload is part of the command line,
  not an argument of its own. In C the line is built in a 256-byte array: a payload of at
  most 250 bytes fits, a longer one is written past its end. Both programs reach this
  from an input line \<^verbatim>\<open>exec:payload\<close> (C++: when the line holds no \<^verbatim>\<open>%\<close>; C: when it
  also is shorter than 100 bytes, so that the logging and the copy before it complete).
\<close>

theorem exec_line_given_to_shell:
  "execute_system_command command =
     (if length (c_str command) \<le> 250 then ([Shell (''echo '' @ c_str command)], None)
      else ([], Some (Buffer_Overflow 256 (length (c_str command) + 6))))
   \<and> executeSystemCommand cmd = ([Shell (''echo '' @ c_str cmd)], None)
   \<and> (CHR ''%'' \<notin> set (c_str payload) \<longrightarrow>
        cpp_main_input new_ok fs server (''exec:'' @ payload) =
          ([Stdout (''exec:'' @ c_str payload), Stdout [newline],
            Shell (''echo '' @ c_str payload)], None))
   \<and> (CHR ''%'' \<notin> set line \<and> NUL \<notin> set line \<and> newline \<notin> set line \<and> length line < 95 \<longrightarrow>
        main_input malloc_ok fs (''exec:'' @ line) =
          ([Stdout ''Log: '', Stdout (''exec:'' @ line), Stdout [newline],
            Stdout (''Copied: exec:'' @ line @ [newline]), Shell (''echo '' @ line)], None))"
  using execute_system_command_cases [of command] executeSystemCommand_line [of cmd]
    cpp_main_input_exec [of payload new_ok fs server] main_input_exec [of line malloc_ok fs]
  by blast

theorem exec_line_given_to_shell_witness:
  "execute_system_command ''a|b'' = ([Shell ''echo a|b''], None)
   \<and> execute_system_command (replicate 251 CHR ''x'') = ([], Some (Buffer_Overflow 256 257))
   \<and> cpp_main_input always_ok no_files new_WebServer ''exec:$(id)'' =
        ([Stdout ''exec:$(id)'', Stdout [newline], Shell ''echo $(id)''], None)
   \<and> main_input always_ok no_files ''exec:a && b'' =
        ([Stdout ''Log: '', Stdout ''exec:a && b'', Stdout [newline],
          Stdout (''Copied: exec:a && b'' @ [newline]), Shell ''echo a && b''], None)"
proof -
  have c: "c_str ''a|b'' = ''a|b''" "c_str ''$(id)'' = ''$(id)''"
    "c_str (replicate 251 CHR ''x'') = replicate 251 CHR ''x''"
    by (simp_all add: c_str_def NUL_def)
  have h: "CHR ''%'' \<notin> set ''a && b'' \<and> NUL \<notin> set ''a && b'' \<and> newline \<notin> set ''a && b''
      \<and> length ''a && b'' < 95"
    by (simp add: NUL_def newline_def)
  note t = exec_line_given_to_shell
  have "execute_system_command ''a|b'' = ([Shell ''echo a|b''], None)"
    using t [of "''a|b''"] by (simp add: c)
  moreover have
    "execute_system_command (replicate 251 CHR ''x'') = ([], Some (Buffer_Overflow 256 257))"
    using t [of "replicate 251 CHR ''x''"] by (simp add: c)
  moreover have "cpp_main_input always_ok no_files new_WebServer ''exec:$(id)'' =
        ([Stdout ''exec:$(id)'', Stdout [newline], Shell ''echo $(id)''], None)"
    using t [of _ _ "''$(id)''" always_ok no_files new_WebServer] by (simp add: c)
  moreover have "main_input always_ok no_files ''exec:a && b'' =
        ([Stdout ''Log: '', Stdout ''exec:a && b'', Stdout [newline],
          Stdout (''Copied: exec:a && b'' @ [newline]), Shell ''echo a && b''], None)"
    using h t [where line = "''a && b''" and malloc_ok = always_ok and fs = no_files] by simp
  ultimately show ?thesis by simp
qed

section \<open>Properties of the number parsing and of the allocation\<close>

lemma stoull_digits:
  assumes "ds \<noteq> []" "\<forall>c\<in>set ds. isdigit c"
  shows "stoull ds =
    (if 2 ^ 64 \<le> decimal 0 ds then Inl Out_Of_Range else Inr (of_nat (decimal 0 ds)))"
proof -
  obtain c cs where ds: "ds = c # cs" using assms by (cases ds) auto
  with assms have c: "isdigit c" by simp
  have "dropWhile isspace (c_str ds) = ds"
    using assms c ds by (simp add: digits_plain isdigit_plain)
  moreover have "strip_sign ds = (False, ds)"
    using c ds by (simp add: strip_sign_def isdigit_plain)
  ultimately show ?thesis
    using c ds by (simp add: stoull_def Let_def)
qed

lemma atoi_digits:
  assumes "ds \<noteq> []" "\<forall>c\<in>set ds. isdigit c"
  shows "atoi ds =
    (if 2 ^ 31 \<le> decimal 0 ds then Inl Atoi_Unrepresentable else Inr (of_nat (decimal 0 ds)))"
proof -
  obtain c cs where ds: "ds = c # cs" using assms by (cases ds) auto
  with assms have c: "isdigit c" by simp
  have "dropWhile isspace (c_str ds) = ds"
    using assms c ds by (simp add: digits_plain isdigit_plain)
  moreover have "strip_sign ds = (False, ds)"
    using c ds by (simp add: strip_sign_def isdigit_plain)
  moreover have "(int (decimal 0 ds) < 2 ^ 31) = (decimal 0 ds < 2 ^ 31)"
    by (metis of_nat_less_iff of_nat_numeral of_nat_power)
  ultimately show ?thesis
    by (auto simp add: atoi_def Let_def not_le)
qed

lemma atoi_minus_digits:
  assumes "\<forall>c\<in>set ds. isdigit c" "decimal 0 ds \<le> 2 ^ 31"
  shows "atoi (CHR ''-'' # ds) = Inr (- of_nat (decimal 0 ds))"
proof -
  have "c_str (CHR ''-'' # ds) = CHR ''-'' # ds"
    using assms by (simp add: c_str_Cons digits_plain NUL_def)
  moreover have "\<not> isspace CHR ''-''"
    by (simp add: isspace_def)
  moreover have "int (decimal 0 ds) \<le> 2 ^ 31"
    using assms(2) by (metis of_nat_le_iff of_nat_numeral of_nat_power)
  ultimately show ?thesis
    by (simp add: atoi_def strip_sign_def Let_def)
qed

lemma unat_minus_of_nat:
  assumes "0 < v" "v \<le> 2 ^ 31"
  shows "unat (- of_nat v :: 32 word) = 2 ^ 32 - v"
proof -
  have v: "v < 2 ^ 32"
    using assms(2) by (rule le_less_trans) simp
  then have u: "unat (of_nat v :: 32 word) = v"
    by (simp add: unat_of_nat)
  have "unat (0 - of_nat v :: 32 word) = 2 ^ 32 - v"
    using unat_sub_if_size [of 0 "of_nat v :: 32 word"] u assms(1)
    by (simp add: word_size)
  then show ?thesis by simp
qed

lemma allocateBuffer_cases:
  "allocateBuffer new_ok sz =
     (if sz = 0 then ([], None)
      else if new_ok (2 * unat sz mod 2 ^ 64)
      then ([Malloc (2 * unat sz mod 2 ^ 64),
             Stdout (''Allocated '' @ show_nat (2 * unat sz mod 2 ^ 64) @ '' bytes'' @ [newline]),
             Free], None)
      else ([], Some (Uncaught Bad_Alloc)))"
proof -
  have "unat (sz * sizeof_char * 2) = 2 * unat sz mod 2 ^ 64"
    by (simp add: sizeof_char_def unat_word_ariths mult.commute)
  then show ?thesis
    by (simp add: allocateBuffer_def Let_def word_neq_0_conv [symmetric] seq_def normal_def
        faulty_def cout_line_def)
qed

lemma allocate_memory_cases:
  "allocate_memory malloc_ok n =
     (if n = 0 then ([], None)
      else if malloc_ok (unat n)
      then ([Malloc (unat n),
             Stdout (''Allocated '' @ show_nat (unat n) @ '' bytes'' @ [newline]), Free], None)
      else ([Stdout (''Memory allocation failed'' @ [newline])], None))"
proof -
  have "unat n < 2 ^ 32"
    using unsigned_less [of n, where 'a = nat] by simp
  then have "unat n < 2 ^ 64"
    by (rule less_le_trans) simp
  then have "take_bit 64 (unat n) = unat n"
    by (simp add: take_bit_nat_eq_self)
  then have "unat ((ucast n :: 64 word) * sizeof_char) = unat n"
    by (simp add: sizeof_char_def unsigned_ucast_eq)
  moreover have "printf (''Memory allocation failed'' @ [newline]) =
      ([Stdout (''Memory allocation failed'' @ [newline])], None)"
    by (simp add: printf_def c_str_def NUL_def newline_def normal_def)
  ultimately show ?thesis
    by (simp add: allocate_memory_def Let_def word_neq_0_conv [symmetric] seq_def normal_def)
qed

text \<open>
  C2 as stated fails. In the C++ program the payload \<^verbatim>\<open>99999999999999999999\<close> makes
  \<^verbatim>\<open>std::stoull\<close> throw \<^verbatim>\<open>std::out_of_range\<close>, which nothing catches: the program is
  terminated by the unhandled exception. In the C program the payload \<^verbatim>\<open>-1\<close> is accepted
  and wraps to 4294967295 in the \<^verbatim>\<open>unsigned int\<close>, and that many bytes are requested.
\<close>

theorem alloc_number_counterexample:
  "cpp_main_input always_ok no_files new_WebServer ''alloc:99999999999999999999'' =
     ([Stdout ''alloc:99999999999999999999'', Stdout [newline]], Some (Uncaught Out_Of_Range))
   \<and> main_input always_ok no_files ''alloc:-1'' =
     ([Stdout ''Log: '', Stdout ''alloc:-1'', Stdout [newline],
       Stdout (''Copied: alloc:-1'' @ [newline]), Malloc 4294967295,
       Stdout (''Allocated 4294967295 bytes'' @ [newline]), Free], None)"
proof -
  have s: "stoull ''99999999999999999999'' = Inl Out_Of_Range"
    by (simp add: stoull_def c_str_def NUL_def isspace_def strip_sign_def isdigit_def
        digit_val_def)
  have c: "c_str ''99999999999999999999'' = ''99999999999999999999''"
    by (simp add: c_str_def NUL_def)
  have cpp: "cpp_main_input always_ok no_files new_WebServer
      (''alloc:'' @ ''99999999999999999999'') =
     ([Stdout (''alloc:'' @ ''99999999999999999999''), Stdout [newline]],
      Some (Uncaught Out_Of_Range))"
    using s c
      cpp_main_input_alloc [of "''99999999999999999999''" always_ok no_files new_WebServer]
    by (simp add: seq_def faulty_def)
  have a: "atoi ''-1'' = Inr 4294967295"
    by (simp add: atoi_def c_str_def NUL_def isspace_def strip_sign_def isdigit_def
        digit_val_def)
  have m: "allocate_memory always_ok 4294967295 =
     ([Malloc 4294967295, Stdout (''Allocated 4294967295 bytes'' @ [newline]), Free], None)"
    by (simp add: allocate_memory_cases always_ok_def show_nat.simps digit_char_def)
  have "main_input always_ok no_files (''alloc:'' @ ''-1'') =
     ([Stdout ''Log: '', Stdout (''alloc:'' @ ''-1''), Stdout [newline],
       Stdout (''Copied: alloc:'' @ ''-1'' @ [newline]), Malloc 4294967295,
       Stdout (''Allocated 4294967295 bytes'' @ [newline]), Free], None)"
    using a m main_input_alloc [of "''-1''" always_ok no_files]
    by (simp add: seq_def NUL_def newline_def)
  with cpp show ?thesis by simp
qed

text \<open>
  C2, amended. For a payload of decimal digits: \<^verbatim>\<open>std::stoull\<close> (C++) returns the exact
  value when it is below \<open>2^64\<close> and throws \<^verbatim>\<open>std::out_of_range\<close> otherwise, without
  truncating or wrapping, but \<^verbatim>\<open>main\<close> does not catch the exception, so the program
  terminates on it before \<^verbatim>\<open>allocateBuffer\<close> is called. \<^verbatim>\<open>atoi\<close> (C) has no error
  result: it returns the exact value below \<open>2^31\<close>, and a larger value is undefined
  behaviour. A minus sign is accepted: \<^verbatim>\<open>atoi\<close>'s negative result is stored in the
  \<^verbatim>\<open>unsigned int\<close> modulo \<open>2^32\<close>.
\<close>

theorem alloc_number_not_handled:
  "ds \<noteq> [] \<and> (\<forall>c\<in>set ds. isdigit c) \<longrightarrow>
     stoull ds =
       (if 2 ^ 64 \<le> decimal 0 ds then Inl Out_Of_Range else Inr (of_nat (decimal 0 ds)))
     \<and> (2 ^ 64 \<le> decimal 0 ds \<longrightarrow>
          cpp_main_input new_ok fs server (''alloc:'' @ ds) =
            ([Stdout (''alloc:'' @ ds), Stdout [newline]], Some (Uncaught Out_Of_Range)))
     \<and> atoi ds =
       (if 2 ^ 31 \<le> decimal 0 ds then Inl Atoi_Unrepresentable
        else Inr (of_nat (decimal 0 ds)))
     \<and> (2 ^ 31 \<le> decimal 0 ds \<and> length ds < 94 \<longrightarrow>
          main_input malloc_ok fs (''alloc:'' @ ds) =
            ([Stdout ''Log: '', Stdout (''alloc:'' @ ds), Stdout [newline],
              Stdout (''Copied: alloc:'' @ ds @ [newline])], Some Atoi_Unrepresentable))
     \<and> (0 < decimal 0 ds \<and> decimal 0 ds \<le> 2 ^ 31 \<longrightarrow>
          atoi (CHR ''-'' # ds) = Inr (- of_nat (decimal 0 ds))
          \<and> unat (- of_nat (decimal 0 ds) :: 32 word) = 2 ^ 32 - decimal 0 ds)"
proof (intro impI, elim conjE)
  assume ne: "ds \<noteq> []" and dg: "\<forall>c\<in>set ds. isdigit c"
  have s: "stoull ds =
       (if 2 ^ 64 \<le> decimal 0 ds then Inl Out_Of_Range else Inr (of_nat (decimal 0 ds)))"
    using ne dg by (rule stoull_digits)
  have a: "atoi ds =
       (if 2 ^ 31 \<le> decimal 0 ds then Inl Atoi_Unrepresentable
        else Inr (of_nat (decimal 0 ds)))"
    using ne dg by (rule atoi_digits)
  have cpp: "cpp_main_input new_ok fs server (''alloc:'' @ ds) =
            ([Stdout (''alloc:'' @ ds), Stdout [newline]], Some (Uncaught Out_Of_Range))"
    if "2 ^ 64 \<le> decimal 0 ds"
    using that s dg cpp_main_input_alloc [of ds new_ok fs server]
    by (simp add: digits_plain seq_def faulty_def)
  have c: "main_input malloc_ok fs (''alloc:'' @ ds) =
            ([Stdout ''Log: '', Stdout (''alloc:'' @ ds), Stdout [newline],
              Stdout (''Copied: alloc:'' @ ds @ [newline])], Some Atoi_Unrepresentable)"
    if "2 ^ 31 \<le> decimal 0 ds \<and> length ds < 94"
    using that a dg main_input_alloc [of ds malloc_ok fs]
    by (simp add: digits_plain seq_def faulty_def)
  have m: "atoi (CHR ''-'' # ds) = Inr (- of_nat (decimal 0 ds))
          \<and> unat (- of_nat (decimal 0 ds) :: 32 word) = 2 ^ 32 - decimal 0 ds"
    if "0 < decimal 0 ds \<and> decimal 0 ds \<le> 2 ^ 31"
    using that dg by (simp add: atoi_minus_digits unat_minus_of_nat)
  from s a cpp c m show "stoull ds =
       (if 2 ^ 64 \<le> decimal 0 ds then Inl Out_Of_Range else Inr (of_nat (decimal 0 ds)))
     \<and> (2 ^ 64 \<le> decimal 0 ds \<longrightarrow>
          cpp_main_input new_ok fs server (''alloc:'' @ ds) =
            ([Stdout (''alloc:'' @ ds), Stdout [newline]], Some (Uncaught Out_Of_Range)))
     \<and> atoi ds =
       (if 2 ^ 31 \<le> decimal 0 ds then Inl Atoi_Unrepresentable
        else Inr (of_nat (decimal 0 ds)))
     \<and> (2 ^ 31 \<le> decimal 0 ds \<and> length ds < 94 \<longrightarrow>
          main_input malloc_ok fs (''alloc:'' @ ds) =
            ([Stdout ''Log: '', Stdout (''alloc:'' @ ds), Stdout [newline],
              Stdout (''Copied: alloc:'' @ ds @ [newline])], Some Atoi_Unrepresentable))
     \<and> (0 < decimal 0 ds \<and> decimal 0 ds \<le> 2 ^ 31 \<longrightarrow>
          atoi (CHR ''-'' # ds) = Inr (- of_nat (decimal 0 ds))
          \<and> unat (- of_nat (decimal 0 ds) :: 32 word) = 2 ^ 32 - decimal 0 ds)"
    by blast
qed

theorem alloc_number_not_handled_witness:
  "stoull ''18446744073709551616'' = Inl Out_Of_Range
   \<and> cpp_main_input always_ok no_files new_WebServer ''alloc:18446744073709551616'' =
       ([Stdout ''alloc:18446744073709551616'', Stdout [newline]], Some (Uncaught Out_Of_Range))
   \<and> main_input always_ok no_files ''alloc:18446744073709551616'' =
       ([Stdout ''Log: '', Stdout ''alloc:18446744073709551616'', Stdout [newline],
         Stdout (''Copied: alloc:18446744073709551616'' @ [newline])],
        Some Atoi_Unrepresentable)
   \<and> stoull ''42'' = Inr 42
   \<and> atoi ''-7'' = Inr (- 7)"
proof -
  have big: "''18446744073709551616'' \<noteq> [] \<and> (\<forall>c\<in>set ''18446744073709551616''. isdigit c)"
    by (simp add: isdigit_def)
  have v: "decimal 0 ''18446744073709551616'' = 18446744073709551616"
    by (simp add: isdigit_def digit_val_def)
  have small: "''42'' \<noteq> [] \<and> (\<forall>c\<in>set ''42''. isdigit c)" "decimal 0 ''42'' = 42"
    "''7'' \<noteq> [] \<and> (\<forall>c\<in>set ''7''. isdigit c)" "decimal 0 ''7'' = 7"
    by (simp_all add: isdigit_def digit_val_def)
  note t = alloc_number_not_handled
  from big v t [where ds = "''18446744073709551616''" and new_ok = always_ok and fs = no_files
      and server = new_WebServer and malloc_ok = always_ok]
  have "stoull ''18446744073709551616'' = Inl Out_Of_Range
   \<and> cpp_main_input always_ok no_files new_WebServer ''alloc:18446744073709551616'' =
       ([Stdout ''alloc:18446744073709551616'', Stdout [newline]], Some (Uncaught Out_Of_Range))
   \<and> main_input always_ok no_files ''alloc:18446744073709551616'' =
       ([Stdout ''Log: '', Stdout ''alloc:18446744073709551616'', Stdout [newline],
         Stdout (''Copied: alloc:18446744073709551616'' @ [newline])],
        Some Atoi_Unrepresentable)"
    by simp
  moreover from small t [where ds = "''42''"] have "stoull ''42'' = Inr 42"
    by simp
  moreover from small t [where ds = "''7''"] have "atoi ''-7'' = Inr (- 7)"
    by simp
  ultimately show ?thesis by simp
qed

text \<open>
  C3 as stated fails: for the size \<open>2^63 + 1\<close> the product with 2 overflows
  \<^verbatim>\<open>size_t\<close>; \<^verbatim>\<open>allocateBuffer\<close> reports no error and allocates the wrapped product,
  2 bytes. The input line \<^verbatim>\<open>alloc:9223372036854775809\<close> reaches it.
\<close>

theorem allocation_overflow_counterexample:
  "allocateBuffer always_ok 9223372036854775809 =
     ([Malloc 2, Stdout (''Allocated 2 bytes'' @ [newline]), Free], None)
   \<and> cpp_main_input always_ok no_files new_WebServer ''alloc:9223372036854775809'' =
     ([Stdout ''alloc:9223372036854775809'', Stdout [newline],
       Malloc 2, Stdout (''Allocated 2 bytes'' @ [newline]), Free], None)"
proof -
  have a: "allocateBuffer always_ok 9223372036854775809 =
     ([Malloc 2, Stdout (''Allocated 2 bytes'' @ [newline]), Free], None)"
    by (simp add: allocateBuffer_cases always_ok_def show_nat.simps digit_char_def)
  have s: "stoull ''9223372036854775809'' = Inr 9223372036854775809"
    by (simp add: stoull_def c_str_def NUL_def isspace_def strip_sign_def isdigit_def
        digit_val_def)
  have c: "c_str ''9223372036854775809'' = ''9223372036854775809''"
    by (simp add: c_str_def NUL_def)
  have "cpp_main_input always_ok no_files new_WebServer (''alloc:'' @ ''9223372036854775809'') =
     ([Stdout (''alloc:'' @ ''9223372036854775809''), Stdout [newline],
       Malloc 2, Stdout (''Allocated 2 bytes'' @ [newline]), Free], None)"
    using a s c
      cpp_main_input_alloc [of "''9223372036854775809''" always_ok no_files new_WebServer]
    by (simp add: seq_def)
  with a show ?thesis by simp
qed

text \<open>
  C3, amended. Neither program validates an allocation size. \<^verbatim>\<open>allocateBuffer\<close> (C++)
  computes \<^verbatim>\<open>size * sizeof(char) * 2\<close> in the 64-bit \<^verbatim>\<open>size_t\<close> and, for every size other
  than 0, allocates that many bytes: twice the size modulo \<open>2^64\<close>, which is the exact
  product only below \<open>2^63\<close>; it stops only when \<^verbatim>\<open>new\<close> itself fails (an uncaught
  \<^verbatim>\<open>std::bad_alloc\<close>). \<^verbatim>\<open>allocate_memory\<close> (C) multiplies its 32-bit size by
  \<^verbatim>\<open>sizeof(char)\<close>, which is 1, in \<^verbatim>\<open>size_t\<close>: the product cannot overflow, and exactly
  \<^verbatim>\<open>size\<close> bytes are requested.
\<close>

theorem allocation_size_unchecked:
  "allocateBuffer new_ok sz =
     (if sz = 0 then ([], None)
      else if new_ok (2 * unat sz mod 2 ^ 64)
      then ([Malloc (2 * unat sz mod 2 ^ 64),
             Stdout (''Allocated '' @ show_nat (2 * unat sz mod 2 ^ 64) @ '' bytes'' @ [newline]),
             Free], None)
      else ([], Some (Uncaught Bad_Alloc)))
   \<and> allocate_memory malloc_ok n =
     (if n = 0 then ([], None)
      else if malloc_ok (unat n)
      then ([Malloc (unat n),
             Stdout (''Allocated '' @ show_nat (unat n) @ '' bytes'' @ [newline]), Free], None)
      else ([Stdout (''Memory allocation failed'' @ [newline])], None))"
proof (rule conjI)
  show "allocateBuffer new_ok sz =
     (if sz = 0 then ([], None)
      else if new_ok (2 * unat sz mod 2 ^ 64)
      then ([Malloc (2 * unat sz mod 2 ^ 64),
             Stdout (''Allocated '' @ show_nat (2 * unat sz mod 2 ^ 64) @ '' bytes'' @ [newline]),
             Free], None)
      else ([], Some (Uncaught Bad_Alloc)))"
    by (rule allocateBuffer_cases)
next
  show "allocate_memory malloc_ok n =
     (if n = 0 then ([], None)
      else if malloc_ok (unat n)
      then ([Malloc (unat n),
             Stdout (''Allocated '' @ show_nat (unat n) @ '' bytes'' @ [newline]), Free], None)
      else ([Stdout (''Memory allocation failed'' @ [newline])], None))"
    by (rule allocate_memory_cases)
qed

theorem allocation_size_unchecked_witness:
  "allocateBuffer always_ok 21 = ([Malloc 42, Stdout (''Allocated 42 bytes'' @ [newline]), Free], None)
   \<and> allocateBuffer always_ok 9223372036854775808 =
        ([Malloc 0, Stdout (''Allocated 0 bytes'' @ [newline]), Free], None)
   \<and> allocate_memory always_ok 4294967295 =
        ([Malloc 4294967295, Stdout (''Allocated 4294967295 bytes'' @ [newline]), Free], None)
   \<and> allocate_memory always_ok 0 = ([], None)"
  using allocation_size_unchecked [of always_ok 21 always_ok 4294967295]
    allocation_size_unchecked [of always_ok 9223372036854775808 always_ok 0]
  by (simp add: always_ok_def show_nat.simps digit_char_def)

section \<open>Properties of the file reading\<close>

lemma fgets_append: "fgets n s = (l, r) \<Longrightarrow> l @ r = s"
proof (induction s arbitrary: n l r)
  case Nil
  then show ?case by simp
next
  case (Cons c cs)
  obtain l' r' where lr: "fgets (n - 1) cs = (l', r')"
    by (cases "fgets (n - 1) cs")
  with Cons.IH have "l' @ r' = cs" by blast
  with Cons.prems lr show ?case
    by (auto split: if_splits)
qed

lemma fgets_piece:
  "fgets n s = (l, r) \<Longrightarrow> length l \<le> n \<and> (s \<noteq> [] \<and> 0 < n \<longrightarrow> l \<noteq> [])"
proof (induction s arbitrary: n l r)
  case Nil
  then show ?case by simp
next
  case (Cons c cs)
  obtain l' r' where lr: "fgets (n - 1) cs = (l', r')"
    by (cases "fgets (n - 1) cs")
  with Cons.IH have "length l' \<le> n - 1" by blast
  with Cons.prems lr show ?case
    by (auto split: if_splits)
qed

lemma read_loop_pieces:
  "\<exists>pieces. concat pieces = content
     \<and> (\<forall>p\<in>set pieces. p \<noteq> [] \<and> length p \<le> 511)
     \<and> read_loop content = map (\<lambda>p. Stdout (''Config: '' @ c_str p)) pieces"
proof (induction content rule: read_loop.induct)
  case (1 content)
  show ?case
  proof (cases "content = []")
    case True
    then have "concat [] = content
        \<and> (\<forall>p\<in>set []. p \<noteq> [] \<and> length p \<le> (511::nat))
        \<and> read_loop content = map (\<lambda>p. Stdout (''Config: '' @ c_str p)) []"
      by (simp add: read_loop.simps)
    then show ?thesis by blast
  next
    case False
    obtain buffer rest where f: "fgets 511 content = (buffer, rest)"
      by (cases "fgets 511 content")
    from "1.IH" [OF False f [symmetric]]
    obtain pieces where p: "concat pieces = rest"
        "\<forall>p\<in>set pieces. p \<noteq> [] \<and> length p \<le> 511"
        "read_loop rest = map (\<lambda>p. Stdout (''Config: '' @ c_str p)) pieces"
      by blast
    from f have "buffer @ rest = content"
      by (rule fgets_append)
    moreover from f False have "buffer \<noteq> [] \<and> length buffer \<le> 511"
      using fgets_piece [of 511 content buffer rest] by simp
    ultimately have "concat (buffer # pieces) = content
        \<and> (\<forall>p\<in>set (buffer # pieces). p \<noteq> [] \<and> length p \<le> 511)
        \<and> read_loop content = map (\<lambda>p. Stdout (''Config: '' @ c_str p)) (buffer # pieces)"
      using False f p by (simp add: read_loop.simps [of content])
    then show ?thesis by blast
  qed
qed

lemma readFile_cases:
  "readFile fs name =
     (case fs (c_str name) of
        None \<Rightarrow> (([Open_File (c_str name)], None), ''File not found'')
      | Some content \<Rightarrow> (([Open_File (c_str name), Close_File], None), content))"
  by (simp add: readFile_def normal_def split: option.splits)

lemma cpp_main_input_file_found:
  assumes "CHR ''%'' \<notin> set (c_str payload)" "fs (c_str payload) = Some content"
  shows "cpp_main_input new_ok fs server (''file:'' @ payload) =
     ([Stdout (''file:'' @ c_str payload), Stdout [newline], Open_File (c_str payload),
       Close_File, Stdout (''File content: '' @ content @ [newline])], None)"
  using assms cpp_main_input_file [of payload new_ok fs server]
  by (simp add: readFile_cases seq_def cout_line_def normal_def)

text \<open>
  C4 as stated fails: for the input \<^verbatim>\<open>file:../../etc/passwd\<close> both programs open the path
  \<^verbatim>\<open>../../etc/passwd\<close> as it is given and print what the file holds.
\<close>

theorem file_path_counterexample:
  "main_input always_ok passwd_only ''file:../../etc/passwd'' =
     ([Stdout ''Log: '', Stdout ''file:../../etc/passwd'', Stdout [newline],
       Stdout (''Copied: file:../../etc/passwd'' @ [newline]),
       Open_File ''../../etc/passwd'',
       Stdout (''Config: root:x:0:0:root:/root:/bin/sh'' @ [newline]), Close_File], None)
   \<and> cpp_main_input always_ok passwd_only new_WebServer ''file:../../etc/passwd'' =
     ([Stdout ''file:../../etc/passwd'', Stdout [newline], Open_File ''../../etc/passwd'',
       Close_File, Stdout (''File content: root:x:0:0:root:/root:/bin/sh'' @ [newline, newline])],
      None)"
proof -
  have c: "c_str ''../../etc/passwd'' = ''../../etc/passwd''"
    by (simp add: c_str_def NUL_def)
  have p: "passwd_only ''../../etc/passwd'' = Some (''root:x:0:0:root:/root:/bin/sh'' @ [newline])"
    by (simp add: passwd_only_def)
  have e: "read_loop [] = []"
    by (simp add: read_loop.simps)
  have "fgets 511 (''root:x:0:0:root:/root:/bin/sh'' @ [newline]) =
      (''root:x:0:0:root:/root:/bin/sh'' @ [newline], [])"
    by (simp add: newline_def)
  then have l: "read_loop (''root:x:0:0:root:/root:/bin/sh'' @ [newline]) =
      [Stdout (''Config: root:x:0:0:root:/root:/bin/sh'' @ [newline])]"
    by (subst read_loop.simps) (simp add: e c_str_def NUL_def newline_def)
  have r: "read_config_file passwd_only ''../../etc/passwd'' =
     ([Open_File ''../../etc/passwd'',
       Stdout (''Config: root:x:0:0:root:/root:/bin/sh'' @ [newline]), Close_File], None)"
    unfolding read_config_file_def c p using l by (simp add: normal_def)
  have "main_input always_ok passwd_only (''file:'' @ ''../../etc/passwd'') =
     ([Stdout ''Log: '', Stdout (''file:'' @ ''../../etc/passwd''), Stdout [newline],
       Stdout (''Copied: file:'' @ ''../../etc/passwd'' @ [newline]),
       Open_File ''../../etc/passwd'',
       Stdout (''Config: root:x:0:0:root:/root:/bin/sh'' @ [newline]), Close_File], None)"
    using r main_input_file [of "''../../etc/passwd''" always_ok passwd_only]
    by (simp add: seq_def NUL_def newline_def)
  moreover have
    "cpp_main_input always_ok passwd_only new_WebServer (''file:'' @ ''../../etc/passwd'') =
     ([Stdout (''file:'' @ ''../../etc/passwd''), Stdout [newline],
       Open_File ''../../etc/passwd'', Close_File,
       Stdout (''File content: '' @ (''root:x:0:0:root:/root:/bin/sh'' @ [newline]) @ [newline])],
      None)"
    using c p cpp_main_input_file_found [of "''../../etc/passwd''" passwd_only
        "''root:x:0:0:root:/root:/bin/sh'' @ [newline]" always_ok new_WebServer]
    by simp
  ultimately show ?thesis by simp
qed

text \<open>
  C4, amended. The programs have no allowed root and do not canonicalize:
  \<^verbatim>\<open>read_config_file\<close> (C) and \<^verbatim>\<open>readFile\<close> (C++) open exactly the path they are given.
  When the file can be opened, its whole content is read, whatever the path is, and
  printed (C: in the pieces \<^verbatim>\<open>fgets\<close> reads, of 1 to 511 bytes, each after
  \<^verbatim>\<open>Config: \<close> and up to its first NUL byte) or returned and printed (C++); when it cannot, C prints nothing and C++ returns \<^verbatim>\<open>File not found\<close>.
\<close>

theorem file_read_unconfined:
  "(fs (c_str filename) = None \<longrightarrow>
      read_config_file fs filename = ([Open_File (c_str filename)], None))
   \<and> (fs (c_str filename) = Some content \<longrightarrow>
      (\<exists>pieces. concat pieces = content
         \<and> (\<forall>p\<in>set pieces. p \<noteq> [] \<and> length p \<le> 511)
         \<and> read_config_file fs filename =
             (Open_File (c_str filename)
                # map (\<lambda>p. Stdout (''Config: '' @ c_str p)) pieces @ [Close_File], None)))
   \<and> readFile fs name =
     (case fs (c_str name) of
        None \<Rightarrow> (([Open_File (c_str name)], None), ''File not found'')
      | Some text \<Rightarrow> (([Open_File (c_str name), Close_File], None), text))
   \<and> (CHR ''%'' \<notin> set (c_str payload) \<and> fs (c_str payload) = Some content \<longrightarrow>
      cpp_main_input new_ok fs server (''file:'' @ payload) =
        ([Stdout (''file:'' @ c_str payload), Stdout [newline], Open_File (c_str payload),
          Close_File, Stdout (''File content: '' @ content @ [newline])], None))"
proof -
  have "read_config_file fs filename = ([Open_File (c_str filename)], None)"
    if "fs (c_str filename) = None"
    using that by (simp add: read_config_file_def normal_def)
  moreover have "\<exists>pieces. concat pieces = content
         \<and> (\<forall>p\<in>set pieces. p \<noteq> [] \<and> length p \<le> 511)
         \<and> read_config_file fs filename =
             (Open_File (c_str filename)
                # map (\<lambda>p. Stdout (''Config: '' @ c_str p)) pieces @ [Close_File], None)"
    if "fs (c_str filename) = Some content"
    using that read_loop_pieces [of content]
    by (auto simp: read_config_file_def normal_def)
  moreover note readFile_cases [of fs name]
    cpp_main_input_file_found [of payload fs content new_ok server]
  ultimately show ?thesis by blast
qed

theorem file_read_unconfined_witness:
  "read_config_file no_files ''/app/data/missing'' = ([Open_File ''/app/data/missing''], None)
   \<and> (\<exists>pieces. concat pieces = ''root:x:0:0:root:/root:/bin/sh'' @ [newline]
        \<and> read_config_file passwd_only ''../../etc/passwd'' =
             (Open_File ''../../etc/passwd''
                # map (\<lambda>p. Stdout (''Config: '' @ c_str p)) pieces @ [Close_File], None))
   \<and> readFile no_files ''/app/data/missing'' =
        (([Open_File ''/app/data/missing''], None), ''File not found'')
   \<and> readFile passwd_only ''../../etc/passwd'' =
        (([Open_File ''../../etc/passwd'', Close_File], None),
         ''root:x:0:0:root:/root:/bin/sh'' @ [newline])
   \<and> cpp_main_input always_ok passwd_only new_WebServer ''file:../../etc/passwd'' =
        ([Stdout ''file:../../etc/passwd'', Stdout [newline], Open_File ''../../etc/passwd'',
          Close_File,
          Stdout (''File content: root:x:0:0:root:/root:/bin/sh'' @ [newline, newline])], None)"
proof -
  have c: "c_str ''/app/data/missing'' = ''/app/data/missing''"
    "c_str ''../../etc/passwd'' = ''../../etc/passwd''"
    by (simp_all add: c_str_def NUL_def)
  have n: "no_files (c_str ''/app/data/missing'') = None"
    by (simp add: no_files_def)
  have p: "passwd_only (c_str ''../../etc/passwd'') =
      Some (''root:x:0:0:root:/root:/bin/sh'' @ [newline])"
    "CHR ''%'' \<notin> set (c_str ''../../etc/passwd'')"
    by (simp_all add: c passwd_only_def)
  note t = file_read_unconfined
  from n t [where fs = no_files and filename = "''/app/data/missing''"
      and name = "''/app/data/missing''"]
  have "read_config_file no_files ''/app/data/missing'' = ([Open_File ''/app/data/missing''], None)
   \<and> readFile no_files ''/app/data/missing'' =
        (([Open_File ''/app/data/missing''], None), ''File not found'')"
    by (simp add: c)
  moreover from p t [where fs = passwd_only and name = "''../../etc/passwd''"
      and payload = "''../../etc/passwd''"
      and content = "''root:x:0:0:root:/root:/bin/sh'' @ [newline]"
      and new_ok = always_ok and server = new_WebServer]
  have "readFile passwd_only ''../../etc/passwd'' =
        (([Open_File ''../../etc/passwd'', Close_File], None),
         ''root:x:0:0:root:/root:/bin/sh'' @ [newline])
   \<and> cpp_main_input always_ok passwd_only new_WebServer ''file:../../etc/passwd'' =
        ([Stdout ''file:../../etc/passwd'', Stdout [newline], Open_File ''../../etc/passwd'',
          Close_File,
          Stdout (''File content: root:x:0:0:root:/root:/bin/sh'' @ [newline, newline])], None)"
    by (simp add: c)
  moreover from p t [where fs = passwd_only and filename = "''../../etc/passwd''"
      and content = "''root:x:0:0:root:/root:/bin/sh'' @ [newline]"]
  have "\<exists>pieces. concat pieces = ''root:x:0:0:root:/root:/bin/sh'' @ [newline]
        \<and> read_config_file passwd_only ''../../etc/passwd'' =
             (Open_File ''../../etc/passwd''
                # map (\<lambda>p. Stdout (''Config: '' @ c_str p)) pieces @ [Close_File], None)"
    unfolding c by blast
  ultimately show ?thesis by simp
qed

end
